theory Spec2Isabelle
  imports Main "HOL-Library.Sublist"
begin

section \<open>Go strings\<close>

text \<open>
  A Go \<open>string\<close> is a sequence of bytes; it is modelled as a \<open>string\<close> whose characters
  are the bytes. Only the functions of package \<open>strings\<close> that the sources call are
  modelled, each with the separator the sources pass.
\<close>

abbreviation NL :: char where
  "NL \<equiv> CHR 0x0A"

text \<open>\<open>strings.HasPrefix(s, p)\<close>.\<close>

definition HasPrefix :: "string \<Rightarrow> string \<Rightarrow> bool" where
  "HasPrefix s p = prefix p s"

text \<open>\<open>strings.Contains(s, sub)\<close>.\<close>

fun Contains :: "string \<Rightarrow> string \<Rightarrow> bool" where
  "Contains [] sub = (sub = [])"
| "Contains (c # cs) sub = (prefix sub (c # cs) \<or> Contains cs sub)"

text \<open>\<open>strings.Index(s, sub)\<close>: the offset of the first occurrence, \<open>None\<close> for Go's \<open>-1\<close>.\<close>

fun Index :: "string \<Rightarrow> string \<Rightarrow> nat option" where
  "Index [] sub = (if sub = [] then Some 0 else None)"
| "Index (c # cs) sub =
     (if prefix sub (c # cs) then Some 0 else map_option Suc (Index cs sub))"

text \<open>\<open>strings.TrimPrefix(s, p)\<close>.\<close>

definition TrimPrefix :: "string \<Rightarrow> string \<Rightarrow> string" where
  "TrimPrefix s p = (if prefix p s then drop (length p) s else s)"

text \<open>\<open>strings.Split(s, "\n")\<close>: the pieces between line feeds; never empty.\<close>

fun Split :: "string \<Rightarrow> string list" where
  "Split [] = [[]]"
| "Split (c # cs) =
     (if c = NL then [] # Split cs
      else (case Split cs of [] \<Rightarrow> [[c]] | l # ls \<Rightarrow> (c # l) # ls))"

text \<open>\<open>strings.Join(xs, "\n")\<close>.\<close>

fun Join :: "string list \<Rightarrow> string" where
  "Join [] = []"
| "Join [x] = x"
| "Join (x # y # ys) = x @ NL # Join (y # ys)"

text \<open>
  \<open>strings.TrimSpace\<close> removes leading and trailing white space as Unicode defines it
  (\<open>unicode.IsSpace\<close>), decoding the bytes as UTF-8. The white-space code points and
  their encodings are: the six ASCII ones, U+0085, U+00A0, U+1680, U+2000 to U+200A,
  U+2028, U+2029, U+202F, U+205F and U+3000. A byte sequence that is not valid UTF-8
  decodes to U+FFFD, which is not white space, so trimming stops there.
\<close>

definition spaceRunes :: "string list" where
  "spaceRunes =
     [[CHR 0x09], [CHR 0x0A], [CHR 0x0B], [CHR 0x0C], [CHR 0x0D], [CHR 0x20],
      [CHR 0xC2, CHR 0x85], [CHR 0xC2, CHR 0xA0],
      [CHR 0xE1, CHR 0x9A, CHR 0x80],
      [CHR 0xE2, CHR 0x80, CHR 0x80], [CHR 0xE2, CHR 0x80, CHR 0x81],
      [CHR 0xE2, CHR 0x80, CHR 0x82], [CHR 0xE2, CHR 0x80, CHR 0x83],
      [CHR 0xE2, CHR 0x80, CHR 0x84], [CHR 0xE2, CHR 0x80, CHR 0x85],
      [CHR 0xE2, CHR 0x80, CHR 0x86], [CHR 0xE2, CHR 0x80, CHR 0x87],
      [CHR 0xE2, CHR 0x80, CHR 0x88], [CHR 0xE2, CHR 0x80, CHR 0x89],
      [CHR 0xE2, CHR 0x80, CHR 0x8A],
      [CHR 0xE2, CHR 0x80, CHR 0xA8], [CHR 0xE2, CHR 0x80, CHR 0xA9],
      [CHR 0xE2, CHR 0x80, CHR 0xAF],
      [CHR 0xE2, CHR 0x81, CHR 0x9F],
      [CHR 0xE3, CHR 0x80, CHR 0x80]]"

text \<open>Dropping, as long as one is there, a leading sequence out of a list of them.\<close>

function trimLeading :: "string list \<Rightarrow> string \<Rightarrow> string" where
  "trimLeading es s =
     (case find (\<lambda>e. e \<noteq> [] \<and> prefix e s) es of
        None \<Rightarrow> s
      | Some e \<Rightarrow> trimLeading es (drop (length e) s))"
  by pat_completeness auto
termination
proof (relation "measure (\<lambda>(es, s). length s)")
  show "wf (measure (\<lambda>(es, s). length s))" by simp
next
  fix es :: "string list" and s e :: string
  assume "find (\<lambda>e. e \<noteq> [] \<and> prefix e s) es = Some e"
  then have "e \<noteq> []" and "prefix e s"
    by (auto simp: find_Some_iff)
  then have "s \<noteq> []" by auto
  with \<open>e \<noteq> []\<close> show "((es, drop (length e) s), (es, s)) \<in> measure (\<lambda>(es, s). length s)"
    by simp
qed

declare trimLeading.simps [simp del]

definition TrimSpace :: "string \<Rightarrow> string" where
  "TrimSpace s = rev (trimLeading (map rev spaceRunes) (rev (trimLeading spaceRunes s)))"

text \<open>\<open>fmt.Sprintf("%d", n)\<close>.\<close>

fun natToDec :: "nat \<Rightarrow> string" where
  "natToDec n =
     (if n < 10 then [char_of (48 + n)]
      else natToDec (n div 10) @ [char_of (48 + n mod 10)])"

declare natToDec.simps [simp del]

definition intToDec :: "int \<Rightarrow> string" where
  "intToDec i = (if i < 0 then CHR ''-'' # natToDec (nat (- i)) else natToDec (nat i))"

section \<open>The regular expressions (internal/plan/parser.go)\<close>

text \<open>
  Each expression is embedded as its matcher, \<open>FindStringSubmatch\<close>, returning the groups
  the sources read (\<open>None\<close> for Go's \<open>nil\<close>), or as a predicate where the sources only
  call \<open>MatchString\<close>. The classes are those of Go's \<open>regexp\<close>: \<open>\s\<close> is tab, line feed,
  form feed, carriage return and space; \<open>\d\<close> is an ASCII digit; \<open>\w\<close> is an ASCII letter,
  digit or underscore; \<open>.\<close> is anything but a line feed; \<open>$\<close> is the end of the text.
  Where the expression leaves a choice, the leftmost-first rule of \<open>regexp\<close> decides.
\<close>

definition isS :: "char \<Rightarrow> bool" where
  "isS c = (c = CHR 0x09 \<or> c = CHR 0x0A \<or> c = CHR 0x0C \<or> c = CHR 0x0D \<or> c = CHR 0x20)"

definition isD :: "char \<Rightarrow> bool" where
  "isD c = ((48::nat) \<le> of_char c \<and> (of_char c :: nat) \<le> 57)"

definition isW :: "char \<Rightarrow> bool" where
  "isW c = (isD c \<or> ((65::nat) \<le> of_char c \<and> (of_char c :: nat) \<le> 90)
           \<or> ((97::nat) \<le> of_char c \<and> (of_char c :: nat) \<le> 122) \<or> c = CHR ''_'')"

text \<open>A literal at the start of the text; the rest of the text after it.\<close>

definition lit :: "string \<Rightarrow> string \<Rightarrow> string option" where
  "lit p s = (if prefix p s then Some (drop (length p) s) else None)"

text \<open>\<open>\s+\<close> before something that is not white space: all of the run, which is not empty.\<close>

definition spaces1 :: "string \<Rightarrow> string option" where
  "spaces1 s = (if takeWhile isS s = [] then None else Some (dropWhile isS s))"

text \<open>
  \<open>\s+(.+)$\<close>: the run of white space is taken whole when something follows it; when
  nothing does, the run gives its last character to the group. The group holds no
  line feed.
\<close>

definition spacesRest :: "string \<Rightarrow> string option" where
  "spacesRest s =
     (let t = dropWhile isS s in
      if takeWhile isS s = [] then None
      else if t \<noteq> [] then (if NL \<in> set t then None else Some t)
      else if 2 \<le> length s \<and> last s \<noteq> NL then Some [last s]
      else None)"

text \<open>\<open>\s+(.*)$\<close>.\<close>

definition spacesRest0 :: "string \<Rightarrow> string option" where
  "spacesRest0 s =
     (let t = dropWhile isS s in
      if takeWhile isS s = [] then None
      else if NL \<in> set t then None else Some t)"

text \<open>\<open>\s+(\d+)$\<close> and \<open>\s+(\w+)$\<close>: the class of the group is the argument.\<close>

definition spacesClass :: "(char \<Rightarrow> bool) \<Rightarrow> string \<Rightarrow> string option" where
  "spacesClass cls s =
     (let t = dropWhile isS s in
      if takeWhile isS s = [] then None
      else if t \<noteq> [] \<and> list_all cls t then Some t else None)"

text \<open>\<open>^#\s+Project:\s+(.+)$\<close>.\<close>

definition projectNameRegex :: "string \<Rightarrow> string option" where
  "projectNameRegex line =
     (case lit ''#'' line of None \<Rightarrow> None
      | Some r \<Rightarrow> (case spaces1 r of None \<Rightarrow> None
      | Some r1 \<Rightarrow> (case lit ''Project:'' r1 of None \<Rightarrow> None
      | Some r2 \<Rightarrow> spacesRest r2)))"

text \<open>\<open>^##\s+Context\s*$\<close>.\<close>

definition contextSectionRegex :: "string \<Rightarrow> bool" where
  "contextSectionRegex line =
     (case lit ''##'' line of None \<Rightarrow> False
      | Some r \<Rightarrow> (case spaces1 r of None \<Rightarrow> False
      | Some r1 \<Rightarrow> (case lit ''Context'' r1 of None \<Rightarrow> False
      | Some r2 \<Rightarrow> list_all isS r2)))"

text \<open>\<open>^##\s+\w+\<close>.\<close>

definition sectionHeaderRegex :: "string \<Rightarrow> bool" where
  "sectionHeaderRegex line =
     (case lit ''##'' line of None \<Rightarrow> False
      | Some r \<Rightarrow> (case spaces1 r of None \<Rightarrow> False
      | Some r1 \<Rightarrow> r1 \<noteq> [] \<and> isW (hd r1)))"

text \<open>
  The optional label \<open>(?:Step\s+(\d+):\s+)?\<close> with the description \<open>(.+)$\<close> after it,
  when the label is there: the description.
\<close>

definition stepLabel :: "string \<Rightarrow> string option" where
  "stepLabel t =
     (case lit ''Step'' t of None \<Rightarrow> None
      | Some u \<Rightarrow> (case spaces1 u of None \<Rightarrow> None
      | Some u1 \<Rightarrow>
          if takeWhile isD u1 = [] then None
          else (case lit '':'' (dropWhile isD u1) of None \<Rightarrow> None
                | Some v \<Rightarrow> spacesRest v)))"

text \<open>
  \<open>^-\s+\[([ x!\-])\]\s+(?:Step\s+(\d+):\s+)?(.+)$\<close>: the marker and the description
  (groups 1 and 3; the sources never read group 2, the number of the label). The label is
  tried first, after the whole run of white space; without it the description is all
  that follows the run.
\<close>

definition stepLineRegex :: "string \<Rightarrow> (char \<times> string) option" where
  "stepLineRegex line =
     (case lit ''-'' line of None \<Rightarrow> None
      | Some r \<Rightarrow> (case spaces1 r of None \<Rightarrow> None
      | Some r1 \<Rightarrow> (case r1 of
          a # m # b # r2 \<Rightarrow>
            if a = CHR ''['' \<and> (m = CHR '' '' \<or> m = CHR ''x'' \<or> m = CHR ''!'' \<or> m = CHR ''-'')
               \<and> b = CHR '']'' \<and> takeWhile isS r2 \<noteq> []
            then (case stepLabel (dropWhile isS r2) of
                    Some g \<Rightarrow> Some (m, g)
                  | None \<Rightarrow> map_option (Pair m) (spacesRest r2))
            else None
        | _ \<Rightarrow> None)))"

text \<open>\<open>^###\s+Step\s+(\d+)$\<close>: the digits.\<close>

definition notesSectionRegex :: "string \<Rightarrow> string option" where
  "notesSectionRegex line =
     (case lit ''###'' line of None \<Rightarrow> None
      | Some r \<Rightarrow> (case spaces1 r of None \<Rightarrow> None
      | Some r1 \<Rightarrow> (case lit ''Step'' r1 of None \<Rightarrow> None
      | Some r2 \<Rightarrow> spacesClass isD r2)))"

text \<open>\<open>^\*\*Status\*\*:\s+(\w+)$\<close>.\<close>

definition statusRegex :: "string \<Rightarrow> string option" where
  "statusRegex line =
     (case lit ''**Status**:'' line of None \<Rightarrow> None | Some r \<Rightarrow> spacesClass isW r)"

text \<open>\<open>^\*\*Last Run\*\*:\s+(.+)$\<close>.\<close>

definition lastRunRegex :: "string \<Rightarrow> string option" where
  "lastRunRegex line =
     (case lit ''**Last Run**:'' line of None \<Rightarrow> None | Some r \<Rightarrow> spacesRest r)"

text \<open>\<open>^\*\*Notes\*\*:\s+(.*)$\<close>.\<close>

definition notesRegex :: "string \<Rightarrow> string option" where
  "notesRegex line =
     (case lit ''**Notes**:'' line of None \<Rightarrow> None | Some r \<Rightarrow> spacesRest0 r)"

text \<open>\<open>^\*\*Retries\*\*:\s+(\d+)$\<close>.\<close>

definition retriesRegex :: "string \<Rightarrow> string option" where
  "retriesRegex line =
     (case lit ''**Retries**:'' line of None \<Rightarrow> None | Some r \<Rightarrow> spacesClass isD r)"

section \<open>The plan's data model (internal/plan/types.go)\<close>

datatype StepStatus = StatusPending | StatusCompleted | StatusFailed | StatusSkipped

text \<open>
  \<open>Step\<close>. The type \<open>'t\<close> is \<open>time.Time\<close>, of which the sources only make values by
  \<open>time.Parse\<close>; Go's \<open>int\<close> is taken as 64 bits wide.
\<close>

record 't Step =
  Number :: int
  Description :: string
  Status :: StepStatus
  LastRun :: "'t option"
  Notes :: string
  RetryCount :: int

record 't Plan =
  ProjectName :: string
  Context :: string
  Steps :: "'t Step list"
  RawContent :: string

text \<open>
  \<open>StepResult\<close>. Its \<open>Status\<close> is a Go string whose zero value, the empty string, is
  none of the four constants: \<open>None\<close> here.
\<close>

record StepResult =
  Success :: bool
  Output :: string
  Reason :: string
  ResultStatus :: "StepStatus option"
  ResultRetryCount :: int

text \<open>\<open>NextStep\<close>: the first pending or failed step.\<close>

definition NextStep :: "'t Plan \<Rightarrow> 't Step option" where
  "NextStep p = find (\<lambda>s. Status s = StatusPending \<or> Status s = StatusFailed) (Steps p)"

definition IsComplete :: "'t Plan \<Rightarrow> bool" where
  "IsComplete p =
     (list_all (\<lambda>s. Status s = StatusCompleted \<or> Status s = StatusSkipped) (Steps p)
      \<and> 0 < length (Steps p))"

section \<open>The parser (internal/plan/parser.go)\<close>

datatype error = ErrTooLong | NilDereference | IndexOutOfRange

text \<open>
  \<open>bufio.Scanner\<close> with its default split function \<open>ScanLines\<close> and its default buffer:
  the tokens are the lines, each without its line feed and without one carriage return
  before it; an empty piece after the last line feed is no token; a line of
  \<open>MaxScanTokenSize\<close> bytes or more stops the scan, and \<open>Err\<close> then returns
  \<open>ErrTooLong\<close>. The result is the tokens delivered and the value of \<open>Err\<close>.
\<close>

definition MaxScanTokenSize :: nat where
  "MaxScanTokenSize = 65536"

definition dropCR :: "string \<Rightarrow> string" where
  "dropCR s = (if s \<noteq> [] \<and> last s = CHR 0x0D then butlast s else s)"

definition scanLines :: "string \<Rightarrow> string list \<times> error option" where
  "scanLines content =
     (let ps = Split content;
          raw = (if last ps = [] then butlast ps else ps);
          ok = takeWhile (\<lambda>l. length l < MaxScanTokenSize) raw
      in (map dropCR ok, if length ok < length raw then Some ErrTooLong else None))"

text \<open>\<open>stepNotes\<close>; its field \<open>notes\<close> is \<open>notes'\<close> here.\<close>

record stepNotes =
  status :: string
  lastRun :: string
  notes' :: string
  retryCount :: int

text \<open>The value of a run of digits.\<close>

definition digitsValue :: "string \<Rightarrow> int" where
  "digitsValue ds = foldl (\<lambda>a c. 10 * a + (of_char c - 48)) 0 ds"

text \<open>
  \<open>fmt.Sscanf(s, "%d", &v)\<close> on a run of digits: a value that does not fit 64 bits is
  an error of \<open>Sscanf\<close>, which the sources ignore, and \<open>v\<close> keeps the value it had.
\<close>

definition Sscanf_d :: "string \<Rightarrow> int \<Rightarrow> int" where
  "Sscanf_d ds v = (if digitsValue ds < 2 ^ 63 then digitsValue ds else v)"

definition parseStepNumber :: "string \<Rightarrow> int" where
  "parseStepNumber s = Sscanf_d s 0"

definition parseCheckbox :: "char \<Rightarrow> StepStatus" where
  "parseCheckbox marker =
     (if marker = CHR ''x'' then StatusCompleted
      else if marker = CHR ''!'' then StatusFailed
      else if marker = CHR ''-'' then StatusSkipped
      else StatusPending)"

text \<open>The variables of the loop of \<open>Parse\<close>.\<close>

record 't scan =
  plan :: "'t Plan"
  stepNumber :: int
  notesMap :: "int \<rightharpoonup> stepNotes"
  currentNoteStep :: int
  inNotesSection :: bool
  inContextSection :: bool
  contextLines :: "string list"

text \<open>
  An assignment to a field of \<open>notes\<close>, the pointer \<open>notesMap[currentNoteStep]\<close>: the
  assignment panics when the map has no entry there.
\<close>

definition setNotes :: "'t scan \<Rightarrow> (stepNotes \<Rightarrow> stepNotes) \<Rightarrow> error + 't scan" where
  "setNotes st f =
     (case notesMap st (currentNoteStep st) of
        None \<Rightarrow> Inl NilDereference
      | Some n \<Rightarrow> Inr (st\<lparr>notesMap := (notesMap st)(currentNoteStep st \<mapsto> f n)\<rparr>))"

text \<open>
  The chain of checks for the four fields of a block: the assignment that the first
  matching one makes to \<open>notes\<close>; \<open>None\<close> when the line is none of the four.
\<close>

definition fieldUpdate :: "string \<Rightarrow> (stepNotes \<Rightarrow> stepNotes) option" where
  "fieldUpdate line =
     (case statusRegex line of
        Some g \<Rightarrow> Some (\<lambda>n. n\<lparr>status := g\<rparr>)
      | None \<Rightarrow>
     (case lastRunRegex line of
        Some g \<Rightarrow> Some (\<lambda>n. n\<lparr>lastRun := g\<rparr>)
      | None \<Rightarrow>
     (case notesRegex line of
        Some g \<Rightarrow> Some (\<lambda>n. n\<lparr>notes' := g\<rparr>)
      | None \<Rightarrow>
     (case retriesRegex line of
        Some g \<Rightarrow> Some (\<lambda>n. n\<lparr>retryCount := Sscanf_d g (retryCount n)\<rparr>)
      | None \<Rightarrow> None))))"

text \<open>The step that a matching line adds, numbered by the counter.\<close>

definition newStep :: "int \<Rightarrow> char \<Rightarrow> string \<Rightarrow> 't Step" where
  "newStep k marker d =
     \<lparr>Number = k, Description = TrimSpace d, Status = parseCheckbox marker,
      LastRun = None, Notes = [], RetryCount = 0\<rparr>"

text \<open>The part of the loop's body from the check for a step line on.\<close>

definition parsePlanLine :: "'t scan \<Rightarrow> string \<Rightarrow> error + 't scan" where
  "parsePlanLine st line =
     (case stepLineRegex line of
        Some (marker, d) \<Rightarrow>
          Inr (st\<lparr>stepNumber := stepNumber st + 1,
                 plan := (plan st)\<lparr>Steps := Steps (plan st) @
                   [newStep (stepNumber st + 1) marker d]\<rparr>\<rparr>)
      | None \<Rightarrow>
     (case notesSectionRegex line of
        Some ds \<Rightarrow>
          Inr (st\<lparr>currentNoteStep := parseStepNumber ds, inNotesSection := True,
                 notesMap := (if notesMap st (parseStepNumber ds) = None
                              then (notesMap st)(parseStepNumber ds \<mapsto>
                                     \<lparr>status = [], lastRun = [], notes' = [], retryCount = 0\<rparr>)
                              else notesMap st)\<rparr>)
      | None \<Rightarrow>
          if inNotesSection st \<and> 0 < currentNoteStep st then
            (case fieldUpdate line of
               Some f \<Rightarrow> setNotes st f
             | None \<Rightarrow>
                 if HasPrefix line ''#''
                 then Inr (st\<lparr>inNotesSection := False, currentNoteStep := 0\<rparr>)
                 else Inr st)
          else Inr st))"

text \<open>The body of the loop, for one line.\<close>

definition parseLine :: "'t scan \<Rightarrow> string \<Rightarrow> error + 't scan" where
  "parseLine st line =
     (case projectNameRegex line of
        Some g \<Rightarrow> Inr (st\<lparr>plan := (plan st)\<lparr>ProjectName := TrimSpace g\<rparr>\<rparr>)
      | None \<Rightarrow>
          if contextSectionRegex line then Inr (st\<lparr>inContextSection := True\<rparr>)
          else if inContextSection st then
            (if sectionHeaderRegex line then
               parsePlanLine
                 (st\<lparr>plan := (plan st)\<lparr>Context := TrimSpace (Join (contextLines st))\<rparr>,
                     inContextSection := False, contextLines := []\<rparr>) line
             else Inr (st\<lparr>contextLines := contextLines st @ [line]\<rparr>))
          else parsePlanLine st line)"

fun parseLines :: "'t scan \<Rightarrow> string list \<Rightarrow> error + 't scan" where
  "parseLines st [] = Inr st"
| "parseLines st (line # ls) =
     (case parseLine st line of Inl e \<Rightarrow> Inl e | Inr st' \<Rightarrow> parseLines st' ls)"

text \<open>
  The last loop of \<open>Parse\<close>, for one step. \<open>parseTime\<close> is
  \<open>time.Parse("2006-01-02 15:04:05", _)\<close>, \<open>None\<close> when it returns an error.
\<close>

definition applyNotes ::
  "(string \<Rightarrow> 't option) \<Rightarrow> (int \<rightharpoonup> stepNotes) \<Rightarrow> 't Step \<Rightarrow> 't Step" where
  "applyNotes parseTime nm s =
     (case nm (Number s) of
        None \<Rightarrow> s
      | Some n \<Rightarrow>
          s\<lparr>LastRun := (if lastRun n \<noteq> [] \<and> lastRun n \<noteq> ''N/A''
                        then (case parseTime (lastRun n) of
                                Some t \<Rightarrow> Some t | None \<Rightarrow> LastRun s)
                        else LastRun s),
            Notes := (if notes' n \<noteq> ''(none)'' then notes' n else Notes s),
            RetryCount := retryCount n\<rparr>)"

definition initScan :: "string \<Rightarrow> 't scan" where
  "initScan content =
     \<lparr>plan = \<lparr>ProjectName = [], Context = [], Steps = [], RawContent = content\<rparr>,
      stepNumber = 0, notesMap = Map.empty, currentNoteStep = 0,
      inNotesSection = False, inContextSection = False, contextLines = []\<rparr>"

definition Parse :: "(string \<Rightarrow> 't option) \<Rightarrow> string \<Rightarrow> error + 't Plan" where
  "Parse parseTime content =
     (case parseLines (initScan content) (fst (scanLines content)) of
        Inl e \<Rightarrow> Inl e
      | Inr st \<Rightarrow>
          (case snd (scanLines content) of
             Some e \<Rightarrow> Inl e
           | None \<Rightarrow>
               Inr ((plan st)\<lparr>Steps :=
                      map (applyNotes parseTime (notesMap st)) (Steps (plan st))\<rparr>)))"

section \<open>The writer (internal/plan/writer.go)\<close>

text \<open>
  \<open>updateCheckbox\<close>: \<open>ReplaceAllString\<close> of the expression \<open>\[([ x!])\]\<close> by the marker
  in brackets, at every match from left to right.
\<close>

fun updateCheckbox :: "string \<Rightarrow> string \<Rightarrow> string" where
  "updateCheckbox (a # b # c # rest) marker =
     (if a = CHR ''['' \<and> (b = CHR '' '' \<or> b = CHR ''x'' \<or> b = CHR ''!'') \<and> c = CHR '']''
      then ''['' @ marker @ '']'' @ updateCheckbox rest marker
      else a # updateCheckbox (b # c # rest) marker)"
| "updateCheckbox s marker = s"

text \<open>\<open>summarizeOutput\<close>; its loop runs over the lines from the last to the first.\<close>

fun lastMeaningful :: "string list \<Rightarrow> string" where
  "lastMeaningful [] = ''Completed successfully''"
| "lastMeaningful (l # ls) =
     (let line = TrimSpace l in
      if line \<noteq> [] \<and> \<not> HasPrefix line ''STEP_''
      then (if 100 < length line then take 97 line @ ''...'' else line)
      else lastMeaningful ls)"

definition summarizeOutput :: "string \<Rightarrow> string" where
  "summarizeOutput output =
     (let lines = Split (TrimSpace output) in
      if length lines = 0 then ''(no output)'' else lastMeaningful (rev lines))"

text \<open>The status word and the notes that the writer derives from a result.\<close>

definition statusWord :: "StepResult \<Rightarrow> string" where
  "statusWord result = (if \<not> Success result then ''failed'' else ''completed'')"

definition notesOf :: "StepResult \<Rightarrow> string" where
  "notesOf result =
     (if \<not> Success result \<and> Reason result \<noteq> []
      then ''Failed: '' @ Reason result else summarizeOutput (Output result))"

text \<open>
  \<open>createNotesSectionForStep\<close>; \<open>now\<close> is \<open>time.Now().Format("2006-01-02 15:04:05")\<close>.
\<close>

definition createNotesSectionForStep :: "string \<Rightarrow> int \<Rightarrow> StepResult \<Rightarrow> string" where
  "createNotesSectionForStep now stepNum result =
     ''### Step '' @ intToDec stepNum @ [NL] @
     ''**Status**: '' @ statusWord result @ [NL] @
     ''**Last Run**: '' @ now @ [NL] @
     ''**Notes**: '' @ notesOf result"

definition insertAfter :: "string list \<Rightarrow> nat \<Rightarrow> string \<Rightarrow> string list" where
  "insertAfter slice index v =
     (if length slice \<le> index then slice @ [[], v]
      else take index slice @ [[], v] @ drop index slice)"

text \<open>The first loop of \<open>updateStepInContent\<close>: the lines as it leaves them.\<close>

fun firstPass :: "int \<Rightarrow> StepResult \<Rightarrow> int \<Rightarrow> string list \<Rightarrow> string list" where
  "firstPass stepNum result currentStep [] = []"
| "firstPass stepNum result currentStep (line # ls) =
     (case stepLineRegex line of
        Some m \<Rightarrow>
          (if currentStep + 1 = stepNum
           then updateCheckbox line (if Success result then ''x'' else ''!'')
           else line) # firstPass stepNum result (currentStep + 1) ls
      | None \<Rightarrow> line # firstPass stepNum result currentStep ls)"

text \<open>
  The second loop. Its variables are \<open>inNotesSection\<close>, \<open>notesStepNum\<close> and
  \<open>foundNotesSection\<close>; the result is the output and \<open>foundNotesSection\<close>. Indexing the
  submatches of a line that starts with \<open>### Step\<close> and does not match panics.
\<close>

record pass =
  inNotes :: bool
  notesStepNum :: int
  foundNotesSection :: bool

definition enterNotes :: "int \<Rightarrow> pass \<Rightarrow> string \<Rightarrow> pass" where
  "enterNotes stepNum st line =
     (case notesSectionRegex line of
        Some ds \<Rightarrow>
          \<lparr>inNotes = True, notesStepNum = parseStepNumber ds,
           foundNotesSection = (foundNotesSection st \<or> parseStepNumber ds = stepNum)\<rparr>
      | None \<Rightarrow> st)"

definition rewriteLine :: "string \<Rightarrow> int \<Rightarrow> StepResult \<Rightarrow> pass \<Rightarrow> string \<Rightarrow> string" where
  "rewriteLine now stepNum result st line =
     (if inNotes st \<and> notesStepNum st = stepNum then
        (if statusRegex line \<noteq> None then ''**Status**: '' @ statusWord result
         else if lastRunRegex line \<noteq> None then ''**Last Run**: '' @ now
         else if notesRegex line \<noteq> None then ''**Notes**: '' @ notesOf result
         else line)
      else line)"

definition leaveNotes :: "pass \<Rightarrow> string \<Rightarrow> error + pass" where
  "leaveNotes st line =
     (if inNotes st \<and> HasPrefix line ''### Step'' then
        (case notesSectionRegex line of
           None \<Rightarrow> Inl IndexOutOfRange
         | Some ds \<Rightarrow>
             Inr (if notesStepNum st \<noteq> parseStepNumber ds then st\<lparr>inNotes := False\<rparr> else st))
      else Inr st)"

fun secondPass ::
  "string \<Rightarrow> int \<Rightarrow> StepResult \<Rightarrow> pass \<Rightarrow> string list \<Rightarrow> error + (string list \<times> bool)" where
  "secondPass now stepNum result st [] = Inr ([], foundNotesSection st)"
| "secondPass now stepNum result st (line # ls) =
     (let st1 = enterNotes stepNum st line in
      case leaveNotes st1 line of
        Inl e \<Rightarrow> Inl e
      | Inr st2 \<Rightarrow>
          (case secondPass now stepNum result st2 ls of
             Inl e \<Rightarrow> Inl e
           | Inr (out, found) \<Rightarrow> Inr (rewriteLine now stepNum result st1 line # out, found)))"

text \<open>
  The search, from the end of the output, for the last line that starts with \<open>## Notes\<close>
  or \<open>### Step\<close>, and the walk from the line after it to the first blank line.
\<close>

definition notesRelated :: "string \<Rightarrow> bool" where
  "notesRelated l = (HasPrefix l ''## Notes'' \<or> HasPrefix l ''### Step'')"

fun lastIndexWhere :: "('a \<Rightarrow> bool) \<Rightarrow> 'a list \<Rightarrow> nat option" where
  "lastIndexWhere P [] = None"
| "lastIndexWhere P (x # xs) =
     (case lastIndexWhere P xs of
        Some j \<Rightarrow> Some (Suc j)
      | None \<Rightarrow> if P x then Some 0 else None)"

definition insertIndex :: "string list \<Rightarrow> nat \<Rightarrow> nat" where
  "insertIndex out i =
     i + 1 + length (takeWhile
       (\<lambda>l. TrimSpace l \<noteq> [] \<or> HasPrefix (TrimSpace l) ''**'') (drop (i + 1) out))"

definition updateStepInContent :: "string \<Rightarrow> string \<Rightarrow> int \<Rightarrow> StepResult \<Rightarrow> error + string" where
  "updateStepInContent now content stepNum result =
     (let lines0 = Split content;
          notesSectionExists = list_ex (\<lambda>l. notesSectionRegex l \<noteq> None) lines0;
          lines = firstPass stepNum result 0 lines0
      in case secondPass now stepNum result
                \<lparr>inNotes = False, notesStepNum = 0, foundNotesSection = False\<rparr> lines of
           Inl e \<Rightarrow> Inl e
         | Inr (out, found) \<Rightarrow>
             Inr (Join
               (if \<not> notesSectionExists
                then out @ [[], ''## Notes'', [], createNotesSectionForStep now stepNum result]
                else if \<not> found then
                  (case lastIndexWhere notesRelated out of
                     Some i \<Rightarrow> insertAfter out (insertIndex out i)
                                 (createNotesSectionForStep now stepNum result)
                   | None \<Rightarrow> out)
                else out)))"

section \<open>Evaluating a transcript (internal/prompt/builder.go)\<close>

definition noMarkerReason :: string where
  "noMarkerReason = ''No STEP_COMPLETE or STEP_FAILED marker found in output''"

text \<open>
  The loop of \<open>ParseResult\<close>, over the lines from the last to the first: its argument is
  the list of lines reversed. The fields a branch does not set keep Go's zero values.
\<close>

fun scanMarkers :: "string \<Rightarrow> string list \<Rightarrow> StepResult" where
  "scanMarkers output [] =
     \<lparr>Success = False, Output = output, Reason = noMarkerReason,
      ResultStatus = None, ResultRetryCount = 0\<rparr>"
| "scanMarkers output (l # ls) =
     (let line = TrimSpace l in
      if line = ''STEP_COMPLETE'' then
        \<lparr>Success = True, Output = output, Reason = [],
         ResultStatus = None, ResultRetryCount = 0\<rparr>
      else if HasPrefix line ''STEP_FAILED:'' then
        \<lparr>Success = False, Output = output,
         Reason = TrimSpace (TrimPrefix line ''STEP_FAILED:''),
         ResultStatus = None, ResultRetryCount = 0\<rparr>
      else if Contains line ''STEP_COMPLETE'' then
        \<lparr>Success = True, Output = output, Reason = [],
         ResultStatus = None, ResultRetryCount = 0\<rparr>
      else if Contains line ''STEP_FAILED:'' then
        (case Index line ''STEP_FAILED:'' of
           Some idx \<Rightarrow>
             \<lparr>Success = False, Output = output,
              Reason = TrimSpace (drop (idx + length ''STEP_FAILED:'') line),
              ResultStatus = None, ResultRetryCount = 0\<rparr>
         | None \<Rightarrow> scanMarkers output ls)
      else scanMarkers output ls)"

definition ParseResult :: "string \<Rightarrow> StepResult" where
  "ParseResult output = scanMarkers output (rev (Split output))"

section \<open>Notions used to state the properties\<close>

definition isStepLine :: "string \<Rightarrow> bool" where
  "isStepLine l = (stepLineRegex l \<noteq> None)"

fun outsideContext :: "bool \<Rightarrow> string list \<Rightarrow> string list" where
  "outsideContext inCtx [] = []"
| "outsideContext inCtx (l # ls) =
     (if projectNameRegex l \<noteq> None then outsideContext inCtx ls
      else if contextSectionRegex l then outsideContext True ls
      else if inCtx \<and> \<not> sectionHeaderRegex l then outsideContext True ls
      else l # outsideContext False ls)"

definition notesInv :: "'t scan \<Rightarrow> bool" where
  "notesInv st = (\<not> (inNotesSection st \<and> 0 < currentNoteStep st) \<or> notesMap st (currentNoteStep st) \<noteq> None)"

fun stepsFrom :: "int \<Rightarrow> string list \<Rightarrow> 't Step list" where
  "stepsFrom k [] = []"
| "stepsFrom k (l # ls) =
     (case stepLineRegex l of
        Some (m, d) \<Rightarrow> newStep (k + 1) m d # stepsFrom (k + 1) ls
      | None \<Rightarrow> stepsFrom k ls)"

definition lineStatus :: "string \<Rightarrow> StepStatus" where
  "lineStatus l = (case stepLineRegex l of Some (m, d) \<Rightarrow> parseCheckbox m | None \<Rightarrow> StatusPending)"

definition lineDescription :: "string \<Rightarrow> string" where
  "lineDescription l = (case stepLineRegex l of Some (m, d) \<Rightarrow> TrimSpace d | None \<Rightarrow> [])"

definition sameButStatus :: "string \<Rightarrow> string \<Rightarrow> bool" where
  "sameButStatus a b = (a = b \<or> (statusRegex a \<noteq> None \<and> statusRegex b \<noteq> None))"

definition markerStatus :: "char \<Rightarrow> StepStatus option" where
  "markerStatus m =
     (if m = CHR '' '' then Some StatusPending
      else if m = CHR ''x'' then Some StatusCompleted
      else if m = CHR ''!'' then Some StatusFailed
      else if m = CHR ''-'' then Some StatusSkipped
      else None)"

definition lineMarker :: "string \<Rightarrow> StepStatus option" where
  "lineMarker l = (case stepLineRegex l of Some (m, d) \<Rightarrow> markerStatus m | None \<Rightarrow> None)"

definition unrecognized :: "string \<Rightarrow> bool" where
  "unrecognized l =
     (projectNameRegex l = None \<and> \<not> contextSectionRegex l \<and> stepLineRegex l = None
      \<and> notesSectionRegex l = None \<and> fieldUpdate l = None \<and> \<not> HasPrefix l ''#'')"

definition contextDoc :: string where
  "contextDoc = Join [''## Context'', ''- [x] done earlier'', ''## Plan'', ''- [ ] Step 1: a'']"

definition remarkDoc :: string where
  "remarkDoc = Join [''# Project: Demo'', ''TODO: think'', ''- [ ] Step 1: a'']"

definition statusDoc :: "string \<Rightarrow> string" where
  "statusDoc w = Join [''- [ ] Step 1: a'', ''### Step 1'', ''**Status**: '' @ w]"

section \<open>Facts about the string functions\<close>

lemma Contains_iff_sublist: "Contains s sub = sublist sub s"
  by (induction s) (auto simp: sublist_Cons_right)

lemma trimLeading_suffix: "suffix (trimLeading es s) s"
proof (induction es s rule: trimLeading.induct)
  case (1 es s)
  show ?case
  proof (cases "find (\<lambda>e. e \<noteq> [] \<and> prefix e s) es")
    case None
    then show ?thesis by (simp add: trimLeading.simps)
  next
    case (Some e)
    from "1" [OF Some] have "suffix (trimLeading es (drop (length e) s)) (drop (length e) s)" .
    then have "suffix (trimLeading es (drop (length e) s)) s"
      using suffix_drop suffix_order.trans by blast
    with Some show ?thesis by (simp add: trimLeading.simps)
  qed
qed

lemma TrimSpace_sublist: "sublist (TrimSpace s) s"
proof -
  let ?a = "trimLeading spaceRunes s"
  have "suffix (trimLeading (map rev spaceRunes) (rev ?a)) (rev ?a)"
    by (rule trimLeading_suffix)
  then have "prefix (TrimSpace s) ?a"
    by (simp add: TrimSpace_def suffix_to_prefix)
  moreover have "suffix ?a s" by (rule trimLeading_suffix)
  ultimately show ?thesis
    by (meson prefix_imp_sublist suffix_imp_sublist sublist_order.order.trans)
qed

lemma Contains_TrimSpace: "Contains (TrimSpace s) sub \<Longrightarrow> Contains s sub"
  using TrimSpace_sublist [of s] by (auto simp: Contains_iff_sublist intro: sublist_order.order.trans)

lemma Index_None_iff: "Index s sub = None \<longleftrightarrow> \<not> Contains s sub"
  by (induction s) auto

section \<open>Transcripts without a marker\<close>

lemma scanMarkers_no_marker:
  assumes "\<forall>l \<in> set ls. \<not> Contains l ''STEP_COMPLETE'' \<and> \<not> Contains l ''STEP_FAILED:''"
  shows "scanMarkers output ls =
     \<lparr>Success = False, Output = output, Reason = noMarkerReason,
      ResultStatus = None, ResultRetryCount = 0\<rparr>"
  using assms
proof (induction ls)
  case Nil
  show ?case by simp
next
  case (Cons l ls)
  then have c: "\<not> Contains l ''STEP_COMPLETE''" and f: "\<not> Contains l ''STEP_FAILED:''"
    by simp_all
  have c': "\<not> Contains (TrimSpace l) ''STEP_COMPLETE''"
    using c Contains_TrimSpace by blast
  have f': "\<not> Contains (TrimSpace l) ''STEP_FAILED:''"
    using f Contains_TrimSpace by blast
  have "TrimSpace l \<noteq> ''STEP_COMPLETE''"
    using c' by (auto simp: Contains_iff_sublist)
  moreover have "\<not> HasPrefix (TrimSpace l) ''STEP_FAILED:''"
    using f' by (auto simp: Contains_iff_sublist HasPrefix_def dest: prefix_imp_sublist)
  ultimately have "scanMarkers output (l # ls) = scanMarkers output ls"
    using c' f' by (simp add: Let_def)
  with Cons show ?case by simp
qed

section \<open>The parser never panics; the steps it returns\<close>

lemma setNotes_ok: "notesInv st \<Longrightarrow> inNotesSection st \<Longrightarrow> 0 < currentNoteStep st \<Longrightarrow>
  \<exists>st'. setNotes st f = Inr st' \<and> notesInv st' \<and> plan st' = plan st \<and> stepNumber st' = stepNumber st
     \<and> inContextSection st' = inContextSection st"
  by (auto simp: setNotes_def notesInv_def split: option.splits)

lemma parsePlanLine_ok:
  assumes "notesInv st"
  shows "\<exists>st'. parsePlanLine st l = Inr st' \<and> notesInv st' \<and> inContextSection st' = inContextSection st"
proof (cases "inNotesSection st \<and> 0 < currentNoteStep st")
  case True
  then have a: "inNotesSection st" and b: "0 < currentNoteStep st" by simp_all
  show ?thesis
    using setNotes_ok [OF assms a b] assms
    by (auto simp: parsePlanLine_def notesInv_def split: option.splits)
next
  case False
  then show ?thesis using assms
    by (auto simp: parsePlanLine_def notesInv_def split: option.splits)
qed

lemma parseLine_ok:
  assumes "notesInv st"
  shows "\<exists>st'. parseLine st l = Inr st' \<and> notesInv st'"
proof -
  let ?c = "st\<lparr>plan := (plan st)\<lparr>Context := TrimSpace (Join (contextLines st))\<rparr>,
               inContextSection := False, contextLines := []\<rparr>"
  have c: "notesInv ?c"
    using assms by (simp add: notesInv_def)
  have 1: "\<exists>st'. parsePlanLine st l = Inr st' \<and> notesInv st'"
    using parsePlanLine_ok [OF assms, of l] by blast
  have 2: "\<exists>st'. parsePlanLine ?c l = Inr st' \<and> notesInv st'"
    using parsePlanLine_ok [OF c, of l] by blast
  have 3: "notesInv (st\<lparr>plan := (plan st)\<lparr>ProjectName := x\<rparr>\<rparr>)" for x
    using assms by (simp add: notesInv_def)
  have 4: "notesInv (st\<lparr>inContextSection := True\<rparr>)"
    using assms by (simp add: notesInv_def)
  have 5: "notesInv (st\<lparr>contextLines := x\<rparr>)" for x
    using assms by (simp add: notesInv_def)
  show ?thesis
    unfolding parseLine_def using 1 2 3 4 5
    by (simp split: option.splits)
qed

lemma parseLines_ok: "notesInv st \<Longrightarrow> \<exists>st'. parseLines st ls = Inr st' \<and> notesInv st'"
proof (induction ls arbitrary: st)
  case Nil
  then show ?case by simp
next
  case (Cons l ls)
  from parseLine_ok [OF Cons.prems, of l] obtain st1 where
    "parseLine st l = Inr st1" "notesInv st1" by blast
  with Cons.IH [of st1] show ?case by simp
qed

lemma notesInv_init: "notesInv (initScan c)"
  by (simp add: notesInv_def initScan_def)

lemma Split_not_Nil [simp]: "Split s \<noteq> []"
  by (induction s) (auto split: list.splits)

lemma length_takeWhile_all:
  "length (takeWhile P xs) = length xs \<longleftrightarrow> (\<forall>x \<in> set xs. P x)"
proof (induction xs)
  case Nil
  show ?case by simp
next
  case (Cons x xs)
  have "length (takeWhile P xs) \<le> length xs" by (rule length_takeWhile_le)
  with Cons show ?case by auto
qed

lemma set_butlast_empty_last:
  assumes "xs \<noteq> []" and "last xs = []"
  shows "set xs = insert [] (set (butlast xs))"
proof -
  have "butlast xs @ [last xs] = xs" using assms(1) by (rule append_butlast_last_id)
  then have "set xs = set (butlast xs @ [[]])" using assms(2) by simp
  then show ?thesis by simp
qed

lemma scanLines_err:
  "snd (scanLines c) = None \<longleftrightarrow> (\<forall>l \<in> set (Split c). length l < MaxScanTokenSize)"
proof -
  let ?P = "\<lambda>l::string. length l < MaxScanTokenSize"
  let ?raw = "if last (Split c) = [] then butlast (Split c) else Split c"
  have a: "(\<forall>l \<in> set ?raw. ?P l) \<longleftrightarrow> (\<forall>l \<in> set (Split c). ?P l)"
  proof (cases "last (Split c) = []")
    case True
    have "set (Split c) = insert [] (set (butlast (Split c)))"
      by (rule set_butlast_empty_last) (simp_all add: True)
    then show ?thesis using True by (simp add: MaxScanTokenSize_def)
  next
    case False
    then show ?thesis by simp
  qed
  have le: "length (takeWhile ?P ?raw) \<le> length ?raw"
    by (rule length_takeWhile_le)
  have "snd (scanLines c) = None \<longleftrightarrow> \<not> length (takeWhile ?P ?raw) < length ?raw"
    by (simp add: scanLines_def Let_def)
  also have "\<dots> \<longleftrightarrow> length (takeWhile ?P ?raw) = length ?raw"
    using le by linarith
  also have "\<dots> \<longleftrightarrow> (\<forall>l \<in> set ?raw. ?P l)"
    by (rule length_takeWhile_all)
  finally show ?thesis using a by simp
qed

lemma scanLines_err_value: "snd (scanLines c) = None \<or> snd (scanLines c) = Some ErrTooLong"
  by (simp add: scanLines_def Let_def)

lemma Parse_cases:
  fixes parseTime :: "string \<Rightarrow> 't option"
  shows "(if \<forall>l \<in> set (Split content). length l < MaxScanTokenSize
    then \<exists>p. Parse parseTime content = Inr p
    else Parse parseTime content = Inl ErrTooLong)"
proof -
  obtain st :: "'t scan" where
    st: "parseLines (initScan content) (fst (scanLines content)) = Inr st"
    using parseLines_ok [OF notesInv_init] by blast
  show ?thesis
  proof (cases "snd (scanLines content)")
    case None
    then show ?thesis using st scanLines_err [of content] by (simp add: Parse_def)
  next
    case (Some e)
    then have "e = ErrTooLong" using scanLines_err_value [of content] by simp
    then show ?thesis using Some st scanLines_err [of content] by (auto simp: Parse_def)
  qed
qed

lemma stepsFrom_append:
  "stepsFrom k (xs @ ys) = stepsFrom k xs @ stepsFrom (k + int (length (filter isStepLine xs))) ys"
  by (induction xs arbitrary: k) (auto simp: isStepLine_def add.assoc split: option.splits)

lemma setNotes_plan:
  "setNotes st f = Inr st' \<Longrightarrow>
     plan st' = plan st \<and> stepNumber st' = stepNumber st \<and> inContextSection st' = inContextSection st"
  by (auto simp: setNotes_def split: option.splits)

lemma parsePlanLine_steps:
  assumes "parsePlanLine st l = Inr st'"
  shows "Steps (plan st') = Steps (plan st) @ stepsFrom (stepNumber st) [l]"
    and "stepNumber st' = stepNumber st + int (length (filter isStepLine [l]))"
    and "inContextSection st' = inContextSection st"
  using assms setNotes_plan [of st _ st']
  by (auto simp: parsePlanLine_def isStepLine_def split: option.splits if_splits)

lemma parseLines_steps:
  "parseLines st ls = Inr st' \<Longrightarrow>
     Steps (plan st') = Steps (plan st) @
       stepsFrom (stepNumber st) (outsideContext (inContextSection st) ls)"
proof (induction ls arbitrary: st)
  case Nil
  then show ?case by simp
next
  case (Cons l ls)
  from Cons.prems obtain st1 where
    1: "parseLine st l = Inr st1" and 2: "parseLines st1 ls = Inr st'"
    by (auto split: sum.splits)
  note IH = Cons.IH [OF 2]
  show ?case
  proof (cases "projectNameRegex l")
    case (Some g)
    with 1 have "st1 = st\<lparr>plan := (plan st)\<lparr>ProjectName := TrimSpace g\<rparr>\<rparr>"
      by (simp add: parseLine_def)
    with IH Some show ?thesis by simp
  next
    case None
    show ?thesis
    proof (cases "contextSectionRegex l")
      case True
      with 1 None have "st1 = st\<lparr>inContextSection := True\<rparr>"
        by (simp add: parseLine_def)
      with IH None True show ?thesis by simp
    next
      case False
      show ?thesis
      proof (cases "inContextSection st \<and> \<not> sectionHeaderRegex l")
        case True
        with 1 None False have "st1 = st\<lparr>contextLines := contextLines st @ [l]\<rparr>"
          by (simp add: parseLine_def)
        with IH None False True show ?thesis by simp
      next
        case nc: False
        define st0 where "st0 = (if inContextSection st
          then st\<lparr>plan := (plan st)\<lparr>Context := TrimSpace (Join (contextLines st))\<rparr>,
                  inContextSection := False, contextLines := []\<rparr> else st)"
        have p: "parsePlanLine st0 l = Inr st1"
          using 1 None False nc by (auto simp: parseLine_def st0_def)
        have s0: "Steps (plan st0) = Steps (plan st)" "stepNumber st0 = stepNumber st"
          "inContextSection st0 = False"
          by (auto simp: st0_def)
        have oc: "outsideContext (inContextSection st) (l # ls) = l # outsideContext False ls"
          using None False nc by auto
        have "Steps (plan st') = Steps (plan st1) @ stepsFrom (stepNumber st1) (outsideContext False ls)"
          using IH parsePlanLine_steps(3) [OF p] s0 by simp
        also have "\<dots> = Steps (plan st) @ stepsFrom (stepNumber st) [l]
            @ stepsFrom (stepNumber st + int (length (filter isStepLine [l]))) (outsideContext False ls)"
          using parsePlanLine_steps(1,2) [OF p] s0 by simp
        also have "\<dots> = Steps (plan st) @ stepsFrom (stepNumber st) ([l] @ outsideContext False ls)"
          by (simp only: stepsFrom_append)
        finally show ?thesis using oc by simp
      qed
    qed
  qed
qed

lemma applyNotes_same [simp]:
  "Number (applyNotes pt nm s) = Number s"
  "Description (applyNotes pt nm s) = Description s"
  "Status (applyNotes pt nm s) = Status s"
  by (simp_all add: applyNotes_def split: option.splits)

lemma Parse_Steps:
  assumes "Parse pt content = Inr p"
  shows "\<exists>nm. Steps p = map (applyNotes pt nm)
           (stepsFrom 0 (outsideContext False (fst (scanLines content))))"
proof -
  from assms obtain st where
    st: "parseLines (initScan content) (fst (scanLines content)) = Inr st"
    and p: "p = (plan st)\<lparr>Steps := map (applyNotes pt (notesMap st)) (Steps (plan st))\<rparr>"
    by (auto simp: Parse_def split: sum.splits option.splits)
  have "Steps (plan st) = stepsFrom 0 (outsideContext False (fst (scanLines content)))"
    using parseLines_steps [OF st] by (simp add: initScan_def)
  with p show ?thesis by auto
qed

lemma Number_stepsFrom:
  "map Number (stepsFrom k ls :: 't Step list)
   = [k + 1 .. k + int (length (filter isStepLine ls))]"
proof (induction ls arbitrary: k)
  case Nil
  show ?case by simp
next
  case (Cons l ls)
  let ?n = "int (length (filter isStepLine ls))"
  show ?case
  proof (cases "stepLineRegex l")
    case None
    then have "\<not> isStepLine l" by (simp add: isStepLine_def)
    then show ?thesis using None Cons [of k] by simp
  next
    case (Some a)
    obtain m d where a: "a = (m, d)" by (cases a)
    have sl: "isStepLine l" using Some by (simp add: isStepLine_def)
    have "map Number (stepsFrom k (l # ls) :: 't Step list)
          = (k + 1) # map Number (stepsFrom (k + 1) ls :: 't Step list)"
      using Some a by (simp add: newStep_def)
    also have "\<dots> = (k + 1) # [k + 1 + 1 .. k + 1 + ?n]"
      using Cons [of "k + 1"] by simp
    also have "\<dots> = [k + 1 .. k + 1 + ?n]"
      using upto_rec1 [of "k + 1" "k + 1 + ?n"] by simp
    also have "k + 1 + ?n = k + int (length (filter isStepLine (l # ls)))"
      using sl by simp
    finally show ?thesis .
  qed
qed

lemma Status_stepsFrom:
  "map Status (stepsFrom k ls :: 't Step list) = map lineStatus (filter isStepLine ls)"
  by (induction ls arbitrary: k)
     (auto simp: isStepLine_def lineStatus_def newStep_def split: option.splits)

lemma Description_stepsFrom:
  "map Description (stepsFrom k ls :: 't Step list) = map lineDescription (filter isStepLine ls)"
  by (induction ls arbitrary: k)
     (auto simp: isStepLine_def lineDescription_def newStep_def split: option.splits)

section \<open>Evaluation on given texts; status lines\<close>

lemma trimLeading_None:
  "find (\<lambda>e. e \<noteq> [] \<and> prefix e s) es = None \<Longrightarrow> trimLeading es s = s"
  by (simp add: trimLeading.simps)

lemma trimLeading_Some:
  "find (\<lambda>e. e \<noteq> [] \<and> prefix e s) es = Some e \<Longrightarrow>
     trimLeading es s = trimLeading es (drop (length e) s)"
  by (simp add: trimLeading.simps)

lemmas eval_strings = TrimSpace_def spaceRunes_def trimLeading_None trimLeading_Some
  HasPrefix_def TrimPrefix_def

lemmas eval_regex = lit_def spaces1_def spacesRest_def spacesRest0_def spacesClass_def
  isS_def isD_def isW_def stepLabel_def stepLineRegex_def projectNameRegex_def
  contextSectionRegex_def sectionHeaderRegex_def notesSectionRegex_def statusRegex_def
  lastRunRegex_def notesRegex_def retriesRegex_def

lemmas eval_scan = scanLines_def dropCR_def MaxScanTokenSize_def

lemmas eval_line = parseLine_def parsePlanLine_def fieldUpdate_def setNotes_def initScan_def
  parseStepNumber_def Sscanf_d_def digitsValue_def

lemmas eval_plan = initScan_def applyNotes_def newStep_def parseCheckbox_def

lemma Split_no_NL: "NL \<notin> set s \<Longrightarrow> Split s = [s]"
  by (induction s) auto

lemma stepLineRegex_marker:
  "stepLineRegex l = Some (m, d) \<Longrightarrow> markerStatus m = Some (parseCheckbox m)"
  by (auto simp: stepLineRegex_def markerStatus_def parseCheckbox_def
           split: option.splits list.splits if_splits)

lemma lineMarker_lineStatus:
  "isStepLine l \<Longrightarrow> lineMarker l = Some (lineStatus l)"
  by (auto simp: isStepLine_def lineMarker_def lineStatus_def dest: stepLineRegex_marker)

lemma statusRegex_other:
  assumes "statusRegex a \<noteq> None"
  shows "stepLineRegex a = None" "projectNameRegex a = None"
        "\<not> contextSectionRegex a" "\<not> sectionHeaderRegex a"
proof -
  from assms have "prefix ''**Status**:'' a"
    by (auto simp: statusRegex_def lit_def split: option.splits if_splits)
  then obtain r where a: "a = CHR ''*'' # r" by (auto simp: prefix_def)
  show "stepLineRegex a = None" by (simp add: a stepLineRegex_def lit_def)
  show "projectNameRegex a = None" by (simp add: a projectNameRegex_def lit_def)
  show "\<not> contextSectionRegex a" by (simp add: a contextSectionRegex_def lit_def)
  show "\<not> sectionHeaderRegex a" by (simp add: a sectionHeaderRegex_def lit_def)
qed

lemma outsideContext_sameButStatus:
  "list_all2 sameButStatus xs ys \<Longrightarrow>
     filter isStepLine (outsideContext b xs) = filter isStepLine (outsideContext b ys)"
proof (induction xs ys arbitrary: b rule: list_all2_induct)
  case Nil
  show ?case by simp
next
  case (Cons x xs y ys)
  show ?case
  proof (cases "x = y")
    case True
    then show ?thesis using Cons.IH by simp
  next
    case False
    with Cons.hyps(1) have x: "statusRegex x \<noteq> None" and y: "statusRegex y \<noteq> None"
      by (simp_all add: sameButStatus_def)
    show ?thesis
      using statusRegex_other [OF x] statusRegex_other [OF y] Cons.IH
      by (simp add: isStepLine_def)
  qed
qed

lemma unrecognized_skipped:
  "unrecognized l \<Longrightarrow> \<not> inContextSection st \<Longrightarrow> parseLine st l = Inr st"
  by (simp add: unrecognized_def parseLine_def parsePlanLine_def)

lemma Parse_Status_marker:
  fixes pt :: "string \<Rightarrow> 't option"
  assumes "Parse pt content = Inr p"
  shows "map (\<lambda>s. Some (Status s)) (Steps p)
         = map lineMarker (filter isStepLine (outsideContext False (fst (scanLines content))))"
proof -
  let ?ol = "outsideContext False (fst (scanLines content))"
  let ?ls = "filter isStepLine ?ol"
  from Parse_Steps [OF assms] obtain nm where
    p: "Steps p = map (applyNotes pt nm) (stepsFrom 0 ?ol)"
    by blast
  have "map Status (stepsFrom 0 ?ol :: 't Step list) = map lineStatus ?ls"
    by (rule Status_stepsFrom)
  then have "map Status (Steps p) = map lineStatus ?ls"
    using p by (simp add: comp_def)
  then have "map Some (map Status (Steps p)) = map Some (map lineStatus ?ls)"
    by simp
  then have "map (\<lambda>s. Some (Status s)) (Steps p) = map (\<lambda>l. Some (lineStatus l)) ?ls"
    by (simp add: comp_def)
  also have "\<dots> = map lineMarker ?ls"
    by (rule map_cong) (simp_all add: lineMarker_lineStatus)
  finally show ?thesis .
qed

lemma contextDoc_scan:
  "scanLines contextDoc
   = ([''## Context'', ''- [x] done earlier'', ''## Plan'', ''- [ ] Step 1: a''], None)"
  by (simp add: contextDoc_def eval_scan)

lemma contextDoc_lines:
  "parseLines (initScan c :: unit scan)
     [''## Context'', ''- [x] done earlier'', ''## Plan'', ''- [ ] Step 1: a'']
   = Inr ((initScan c)\<lparr>inContextSection := False, contextLines := [], stepNumber := 1,
            plan := (plan (initScan c))\<lparr>Context := ''- [x] done earlier'',
                      Steps := [newStep 1 (CHR '' '') ''a'']\<rparr>\<rparr>)"
  by (simp add: eval_regex eval_strings eval_line)

lemma contextDoc_Parse:
  "Parse (\<lambda>s. None :: unit option) contextDoc =
     Inr \<lparr>ProjectName = [], Context = ''- [x] done earlier'',
          Steps = [\<lparr>Number = 1, Description = ''a'', Status = StatusPending, LastRun = None,
                    Notes = [], RetryCount = 0\<rparr>],
          RawContent = contextDoc\<rparr>"
  by (simp only: Parse_def contextDoc_scan contextDoc_lines fst_conv snd_conv sum.case option.case)
     (simp add: eval_plan eval_strings)

lemma contextDoc_count: "length (filter isStepLine (fst (scanLines contextDoc))) = 2"
  by (simp add: contextDoc_scan isStepLine_def eval_regex)

text \<open>
  C5: a transcript none of whose lines contains \<open>STEP_COMPLETE\<close> (a line equal to it
  contains it) or \<open>STEP_FAILED:\<close> evaluates to a failure with the fixed reason, and the
  result's output is the whole transcript.
\<close>

theorem ParseResult_no_marker:
  assumes "\<forall>l \<in> set (Split output).
             \<not> Contains l ''STEP_COMPLETE'' \<and> \<not> Contains l ''STEP_FAILED:''"
  shows "Success (ParseResult output) = False
       \<and> Reason (ParseResult output) = ''No STEP_COMPLETE or STEP_FAILED marker found in output''
       \<and> Output (ParseResult output) = output"
proof -
  have "\<forall>l \<in> set (rev (Split output)).
          \<not> Contains l ''STEP_COMPLETE'' \<and> \<not> Contains l ''STEP_FAILED:''"
    using assms by simp
  then show ?thesis
    unfolding ParseResult_def
    by (simp only: scanMarkers_no_marker) (simp add: noMarkerReason_def)
qed

theorem ParseResult_no_marker_witness:
  "Success (ParseResult ''building\<newline>all tests pass'') = False
   \<and> Reason (ParseResult ''building\<newline>all tests pass'')
       = ''No STEP_COMPLETE or STEP_FAILED marker found in output''
   \<and> Output (ParseResult ''building\<newline>all tests pass'') = ''building\<newline>all tests pass''"
proof -
  have h: "\<forall>l \<in> set (Split ''building\<newline>all tests pass'').
      \<not> Contains l ''STEP_COMPLETE'' \<and> \<not> Contains l ''STEP_FAILED:''"
    by simp
  show ?thesis
    by (rule ParseResult_no_marker [OF h])
qed

end
